theory Spec2Isabelle
  imports Main
begin

section \<open>Python string operations used by the decoder\<close>

text \<open>
  Python strings are modelled as \<^typ>\<open>string\<close>; a \<^typ>\<open>char\<close> stands for the code
  point of the same number (0 to 255). Within that range \<^verbatim>\<open>str.strip()\<close> removes the
  code points below, and \<^verbatim>\<open>str.isdigit()\<close> accepts the ten decimal digits and the
  superscript digits U+00B2, U+00B3 and U+00B9 (which \<^verbatim>\<open>int()\<close> rejects).
\<close>

definition py_isspace :: "char \<Rightarrow> bool" where
  "py_isspace c = (c \<in> set [CHR 0x09, CHR 0x0A, CHR 0x0B, CHR 0x0C, CHR 0x0D,
                              CHR 0x1C, CHR 0x1D, CHR 0x1E, CHR 0x1F, CHR 0x20,
                              CHR 0x85, CHR 0xA0])"

definition strip :: "string \<Rightarrow> string" where
  "strip s = rev (dropWhile py_isspace (rev (dropWhile py_isspace s)))"

definition rstrip_char :: "char \<Rightarrow> string \<Rightarrow> string" where
  "rstrip_char c s = rev (dropWhile (\<lambda>x. x = c) (rev s))"

definition startswith :: "string \<Rightarrow> string \<Rightarrow> bool" where
  "startswith s p = (take (length p) s = p)"

definition endswith :: "string \<Rightarrow> string \<Rightarrow> bool" where
  "endswith s p = (length p \<le> length s \<and> drop (length s - length p) s = p)"

text \<open>\<^verbatim>\<open>s.split(c)\<close> with an explicit separator: never empty, empty tokens kept.\<close>

fun split_on :: "char \<Rightarrow> string \<Rightarrow> string list" where
  "split_on c [] = [[]]"
| "split_on c (x # xs) =
     (if x = c then [] # split_on c xs
      else (case split_on c xs of
              t # ts \<Rightarrow> (x # t) # ts
            | [] \<Rightarrow> [[x]]))"

definition is_decimal_digit :: "char \<Rightarrow> bool" where
  "is_decimal_digit c = (c \<in> set ''0123456789'')"

definition py_isdigit_char :: "char \<Rightarrow> bool" where
  "py_isdigit_char c = (is_decimal_digit c \<or> c \<in> set [CHR 0xB2, CHR 0xB3, CHR 0xB9])"

definition isdigit :: "string \<Rightarrow> bool" where
  "isdigit s = (s \<noteq> [] \<and> list_all py_isdigit_char s)"

definition digit_value :: "char \<Rightarrow> int" where
  "digit_value c = of_char c - 48"

definition decimal_value :: "string \<Rightarrow> int" where
  "decimal_value s = foldl (\<lambda>acc c. 10 * acc + digit_value c) 0 s"

section \<open>Errors\<close>

datatype error =
    EmptyMessage
  | MissingStartMarker
  | MessageTooLong nat
  | TooFewParts nat "string list"
  | EmptyOriginatorOrEvent
  | IncompleteAfterDuration
  | MissingRequiredFields
  | NoValidFipsCodes
  | InvalidDurationFormat string
  | InvalidTimestampFormat string
  | IntValueError string
  | DatabaseError
  | SnapshotWriteError
  | NoSuchTable string
  | NoSuchColumn string
  | DuplicateColumn string
  | NonConstantDefault

text \<open>
  \<^verbatim>\<open>int(s)\<close> at the call sites of the decoder, where \<open>s\<close> has passed
  \<^verbatim>\<open>isdigit()\<close>: it raises \<^verbatim>\<open>ValueError\<close> unless every character is a decimal digit.
\<close>

definition py_int :: "string \<Rightarrow> error + int" where
  "py_int s = (if s \<noteq> [] \<and> list_all is_decimal_digit s then Inr (decimal_value s)
               else Inl (IntValueError s))"

section \<open>Header parsing (same\_decoder.py)\<close>

definition validate_same_message_format :: "string \<Rightarrow> error + string" where
  "validate_same_message_format msg0 =
     (let msg = strip msg0 in
      if msg = [] then Inl EmptyMessage
      else if \<not> startswith msg ''ZCZC-'' then Inl MissingStartMarker
      else if length msg > 1000 then Inl (MessageTooLong (length msg))
      else Inr msg)"

record parsed_message =
  originator :: string
  event_code :: string
  fips_codes :: "string list"
  duration :: string
  timestamp :: string
  station_id :: string

text \<open>
  The values the scanning loop of \<^verbatim>\<open>parse_same_message\<close> leaves in its local variables;
  \<open>None\<close> is Python's \<^verbatim>\<open>None\<close>.
\<close>

record scanned =
  sc_fips :: "string list"
  sc_duration :: "string option"
  sc_timestamp :: "string option"
  sc_station :: "string option"

text \<open>
  The loop \<^verbatim>\<open>for i in range(2, len(parts))\<close>; the second argument is \<open>parts[i:]\<close>, so
  \<open>parts[i + 1]\<close> and \<open>parts[i + 2]\<close> are the two tokens after its head and a missing
  one is the \<^verbatim>\<open>IndexError\<close> of the source.
\<close>

fun scan_parts :: "string list \<Rightarrow> string list \<Rightarrow> error + scanned" where
  "scan_parts acc [] =
     Inr \<lparr>sc_fips = acc, sc_duration = None, sc_timestamp = None, sc_station = None\<rparr>"
| "scan_parts acc (p # rest) =
     (if CHR ''+'' \<in> set p then
        (let fips_part = takeWhile (\<lambda>c. c \<noteq> CHR ''+'') p;
             dur = tl (dropWhile (\<lambda>c. c \<noteq> CHR ''+'') p);
             acc' = (if strip fips_part \<noteq> [] then acc @ [strip fips_part] else acc)
         in (case rest of
               ts # st # _ \<Rightarrow>
                 Inr \<lparr>sc_fips = acc', sc_duration = Some dur,
                      sc_timestamp = Some (strip ts), sc_station = Some (strip st)\<rparr>
             | _ \<Rightarrow> Inl IncompleteAfterDuration))
      else
        (let fips_code = strip p
         in scan_parts (if fips_code \<noteq> [] then acc @ [fips_code] else acc) rest))"

text \<open>Python truthiness of a variable that is \<^verbatim>\<open>None\<close> or a string.\<close>

definition truthy :: "string option \<Rightarrow> bool" where
  "truthy v = (case v of None \<Rightarrow> False | Some s \<Rightarrow> s \<noteq> [])"

text \<open>
  The first half of \<^verbatim>\<open>parse_same_message\<close>, up to the end of the scanning loop:
  the tokens, the originator and event code, and what the loop collected.
\<close>

definition split_header :: "string \<Rightarrow> error + (string list)" where
  "split_header msg0 =
     (case validate_same_message_format msg0 of
        Inl e \<Rightarrow> Inl e
      | Inr msg \<Rightarrow>
          (let parts = split_on CHR ''-'' (rstrip_char CHR ''-'' (drop 5 msg))
           in if length parts < 5 then Inl (TooFewParts (length parts) parts)
              else Inr parts))"

definition scan_header :: "string \<Rightarrow> error + (string \<times> string \<times> scanned)" where
  "scan_header msg0 =
     (case split_header msg0 of
        Inl e \<Rightarrow> Inl e
      | Inr parts \<Rightarrow>
          (let orig = strip (parts ! 0); ev = strip (parts ! 1)
           in if orig = [] \<or> ev = [] then Inl EmptyOriginatorOrEvent
              else (case scan_parts [] (drop 2 parts) of
                      Inl e \<Rightarrow> Inl e
                    | Inr sc \<Rightarrow> Inr (orig, ev, sc))))"

text \<open>The second half: the checks on the collected fields and the returned dictionary.\<close>

definition check_fields :: "string \<times> string \<times> scanned \<Rightarrow> error + parsed_message" where
  "check_fields f =
     (case f of (orig, ev, sc) \<Rightarrow>
        if \<not> (orig \<noteq> [] \<and> ev \<noteq> [] \<and> truthy (sc_duration sc)
                \<and> truthy (sc_timestamp sc) \<and> truthy (sc_station sc))
        then Inl MissingRequiredFields
        else if sc_fips sc = [] then Inl NoValidFipsCodes
        else if \<not> isdigit (the (sc_duration sc)) \<or> length (the (sc_duration sc)) \<noteq> 4
        then Inl (InvalidDurationFormat (the (sc_duration sc)))
        else if \<not> isdigit (the (sc_timestamp sc)) \<or> length (the (sc_timestamp sc)) \<noteq> 7
        then Inl (InvalidTimestampFormat (the (sc_timestamp sc)))
        else Inr \<lparr>originator = orig, event_code = ev, fips_codes = sc_fips sc,
                  duration = the (sc_duration sc), timestamp = the (sc_timestamp sc),
                  station_id = the (sc_station sc)\<rparr>)"

definition parse_same_message :: "string \<Rightarrow> error + parsed_message" where
  "parse_same_message msg0 =
     (case scan_header msg0 of Inl e \<Rightarrow> Inl e | Inr f \<Rightarrow> check_fields f)"

section \<open>More string operations\<close>

text \<open>\<^verbatim>\<open>sub in s\<close> on strings.\<close>

fun contains :: "string \<Rightarrow> string \<Rightarrow> bool" where
  "contains sub [] = (sub = [])"
| "contains sub (x # xs) = (startswith (x # xs) sub \<or> contains sub xs)"

text \<open>
  \<^verbatim>\<open>s.replace(old, new)\<close> for a non-empty \<open>old\<close> (the decoder replaces
  \<^verbatim>\<open>" County"\<close> only): every occurrence, left to right, without overlap.
\<close>

function replace_str :: "string \<Rightarrow> string \<Rightarrow> string \<Rightarrow> string" where
  "replace_str old new s =
     (if s = [] \<or> old = [] then s
      else if startswith s old then new @ replace_str old new (drop (length old) s)
      else hd s # replace_str old new (tl s))"
  by pat_completeness auto
termination
  by (relation "measure (\<lambda>(old, new, s). length s)") auto

declare replace_str.simps [simp del]

text \<open>\<^verbatim>\<open>sep.join(xs)\<close>.\<close>

fun join :: "string \<Rightarrow> string list \<Rightarrow> string" where
  "join sep [] = []"
| "join sep [x] = x"
| "join sep (x # y # ys) = x @ sep @ join sep (y # ys)"

section \<open>Enrichment (same\_decoder.py)\<close>

text \<open>
  A row of a reference table maps column names to values; a table maps its key column to
  rows. \<^verbatim>\<open>_csv_cache\<close> is read after \<^verbatim>\<open>load_all_csv_data\<close> has filled it.
\<close>

type_synonym csv_row = "string \<rightharpoonup> string"

record catalog =
  originators :: "string \<rightharpoonup> csv_row"
  events :: "string \<rightharpoonup> csv_row"
  counties :: "string \<rightharpoonup> csv_row"

text \<open>
  What the surroundings supply while one message is processed: the year of the system
  clock, the text of the local clock, and whether the database insert and the snapshot
  write raise.
\<close>

record conditions =
  clock_year :: int
  clock_text :: string
  insert_fails :: bool
  write_fails :: bool

text \<open>
  A \<^verbatim>\<open>datetime\<close> is the number of minutes since 0001-01-01 00:00 (the decoder never
  sets seconds). \<open>days_before_year y\<close> is the number of days before 1 January of year
  \<open>y\<close>; \<^verbatim>\<open>datetime\<close> holds the years 1 to 9999 and raises beyond them.
\<close>

definition days_before_year :: "int \<Rightarrow> int" where
  "days_before_year y =
     (y - 1) * 365 + (y - 1) div 4 - (y - 1) div 100 + (y - 1) div 400"

definition datetime_in_range :: "int \<Rightarrow> bool" where
  "datetime_in_range t = (0 \<le> t \<and> t < 1440 * days_before_year 10000)"

text \<open>
  The text of the \<^verbatim>\<open>timestamp_utc\<close> field. \<open>Formatted t\<close> is the rendering of the
  instant \<open>t\<close> by \<^verbatim>\<open>strftime("%b %d %Y, %H:%M UTC")\<close>; \<open>InvalidTimestampText ts\<close> is
  the text \<^verbatim>\<open>Invalid timestamp (ts)\<close>. \<^verbatim>\<open>strptime\<close> with the same format reads a
  rendering back to its instant when its year has four digits (a smaller year is printed
  without padding, which \<^verbatim>\<open>%Y\<close> does not read) and raises on every other text.
\<close>

datatype time_text = Formatted int | InvalidTimestampText string

definition strptime_utc :: "time_text \<Rightarrow> int option" where
  "strptime_utc txt =
     (case txt of
        Formatted t \<Rightarrow> if 1440 * days_before_year 1000 \<le> t then Some t else None
      | InvalidTimestampText _ \<Rightarrow> None)"

definition format_julian_timestamp :: "int \<Rightarrow> string \<Rightarrow> time_text" where
  "format_julian_timestamp year ts =
     (if ts = [] \<or> \<not> isdigit ts \<or> length ts \<noteq> 7 then InvalidTimestampText ts
      else
        (case (py_int (take 3 ts), py_int (take 2 (drop 3 ts)), py_int (drop 5 ts)) of
           (Inr jjj, Inr hh, Inr mm) \<Rightarrow>
             if \<not> (1 \<le> jjj \<and> jjj \<le> 366) then InvalidTimestampText ts
             else if \<not> (0 \<le> hh \<and> hh \<le> 23) then InvalidTimestampText ts
             else if \<not> (0 \<le> mm \<and> mm \<le> 59) then InvalidTimestampText ts
             else if \<not> (1 \<le> year \<and> year \<le> 9999) then InvalidTimestampText ts
             else
               (let base_date = 1440 * days_before_year year;
                    msg_datetime = base_date + (jjj - 1) * 1440 + hh * 60 + mm
                in if datetime_in_range msg_datetime then Formatted msg_datetime
                   else InvalidTimestampText ts)
         | _ \<Rightarrow> InvalidTimestampText ts))"

definition resolve_region_descriptions :: "catalog \<Rightarrow> string list \<Rightarrow> string list" where
  "resolve_region_descriptions cat codes =
     map (\<lambda>fips.
            case counties cat fips of
              None \<Rightarrow> ''Unknown Region ('' @ fips @ '')''
            | Some entry \<Rightarrow>
                (case entry ''county'' of
                   None \<Rightarrow> ''Unknown Region ('' @ fips @ '')''
                 | Some county \<Rightarrow> county)) codes"

record alert =
  alert_originator :: string
  alert_event :: string
  alert_event_code :: string
  alert_fips_codes :: "string list"
  alert_region_descriptions :: "string list"
  alert_duration_minutes :: int
  alert_timestamp_utc :: time_text
  alert_issued_code :: string
  alert_source :: string
  alert_raw_message :: string
  alert_end_time :: "int option"

text \<open>\<^verbatim>\<open>table.get(code, {}).get(column, code)\<close>.\<close>

definition lookup_or_code :: "(string \<rightharpoonup> csv_row) \<Rightarrow> string \<Rightarrow> string \<Rightarrow> string" where
  "lookup_or_code table column code =
     (case table code of
        None \<Rightarrow> code
      | Some row \<Rightarrow> (case row column of None \<Rightarrow> code | Some v \<Rightarrow> v))"

definition create_alert_data ::
  "catalog \<Rightarrow> conditions \<Rightarrow> parsed_message \<Rightarrow> string \<Rightarrow> error + alert" where
  "create_alert_data cat io parsed msg =
     (let origin = lookup_or_code (originators cat) ''name'' (originator parsed);
          event = lookup_or_code (events cat) ''description'' (event_code parsed);
          formatted_time = format_julian_timestamp (clock_year io) (timestamp parsed)
      in case py_int (duration parsed) of
           Inl e \<Rightarrow> Inl e
         | Inr duration_minutes \<Rightarrow>
             (let end_time =
                    (case strptime_utc formatted_time of
                       None \<Rightarrow> None
                     | Some dt_utc \<Rightarrow>
                         if datetime_in_range (dt_utc + duration_minutes)
                         then Some (dt_utc + duration_minutes) else None)
              in Inr \<lparr>alert_originator = origin, alert_event = event,
                       alert_event_code = event_code parsed,
                       alert_fips_codes = fips_codes parsed,
                       alert_region_descriptions =
                         resolve_region_descriptions cat (fips_codes parsed),
                       alert_duration_minutes = duration_minutes,
                       alert_timestamp_utc = formatted_time,
                       alert_issued_code = timestamp parsed,
                       alert_source = station_id parsed,
                       alert_raw_message = msg,
                       alert_end_time = end_time\<rparr>))"

section \<open>Persistence and the latest-alert snapshot (same\_decoder.py)\<close>

record alert_row =
  row_timestamp_utc :: time_text
  row_originator :: string
  row_event :: string
  row_event_code :: string
  row_fips_codes :: string
  row_regions :: string
  row_duration_minutes :: int
  row_issued_code :: string
  row_source :: string
  row_raw_message :: string

text \<open>
  The content of \<^verbatim>\<open>last_message.json\<close>. \<open>md_issued_local\<close> is the local-time rendering
  of the instant of a \<open>Formatted\<close> text, or the original text when it cannot be read.
\<close>

record message_data =
  md_event :: string
  md_event_code :: string
  md_originator :: string
  md_source :: string
  md_issued_local :: time_text
  md_duration_minutes :: int
  md_regions :: "string list"
  md_updated :: string

record world =
  alerts_table :: "alert_row list"
  last_message :: "message_data option"

definition log_alert_to_db :: "conditions \<Rightarrow> world \<Rightarrow> alert \<Rightarrow> (error \<times> world) + world" where
  "log_alert_to_db io w a =
     (if insert_fails io then Inl (DatabaseError, w)
      else Inr (w\<lparr>alerts_table := alerts_table w @
                  [\<lparr>row_timestamp_utc = alert_timestamp_utc a,
                    row_originator = alert_originator a,
                    row_event = alert_event a,
                    row_event_code = alert_event_code a,
                    row_fips_codes = join '','' (alert_fips_codes a),
                    row_regions = join '', '' (alert_region_descriptions a),
                    row_duration_minutes = alert_duration_minutes a,
                    row_issued_code = alert_issued_code a,
                    row_source = alert_source a,
                    row_raw_message = alert_raw_message a\<rparr>]\<rparr>))"

text \<open>The region list of the snapshot: the first statements of \<^verbatim>\<open>write_last_message\<close>.\<close>

definition snapshot_regions :: "string list \<Rightarrow> string list" where
  "snapshot_regions regions =
     (if regions \<noteq> [] \<and> list_all (contains ''County'') regions
      then map (replace_str '' County'' []) regions
      else regions)"

definition write_last_message :: "conditions \<Rightarrow> world \<Rightarrow> alert \<Rightarrow> (error \<times> world) + world" where
  "write_last_message io w a =
     (let regions = snapshot_regions (alert_region_descriptions a);
          issued_local = alert_timestamp_utc a;
          message_data =
            \<lparr>md_event = alert_event a, md_event_code = alert_event_code a,
             md_originator = alert_originator a, md_source = alert_source a,
             md_issued_local = issued_local,
             md_duration_minutes = alert_duration_minutes a,
             md_regions = regions, md_updated = clock_text io\<rparr>
      in if write_fails io then Inl (SnapshotWriteError, w)
         else Inr (w\<lparr>last_message := Some message_data\<rparr>))"

text \<open>
  \<^verbatim>\<open>decode_same_message\<close>: an exception of any stage is logged and raised again; the
  value \<open>Inl (e, w)\<close> carries the world the exception leaves behind. The closing
  \<^verbatim>\<open>print_alert_summary\<close> only writes to the log and is left out.
\<close>

definition decode_same_message ::
  "catalog \<Rightarrow> conditions \<Rightarrow> world \<Rightarrow> string \<Rightarrow> (error \<times> world) + world" where
  "decode_same_message cat io w msg =
     (case parse_same_message msg of
        Inl e \<Rightarrow> Inl (e, w)
      | Inr parsed \<Rightarrow>
          (case create_alert_data cat io parsed msg of
             Inl e \<Rightarrow> Inl (e, w)
           | Inr a \<Rightarrow>
               (case log_alert_to_db io w a of
                  Inl ew \<Rightarrow> Inl ew
                | Inr w1 \<Rightarrow> write_last_message io w1 a)))"

section \<open>Stream framing (same\_decoder.py)\<close>

text \<open>
  One iteration of the loop of \<^verbatim>\<open>stream_decode_from_stdin\<close> on the state (buffer, world),
  for one line of standard input and the conditions under which it is processed. The
  \<^verbatim>\<open>except Exception\<close> around \<^verbatim>\<open>decode_same_message\<close> turns a failed decode into a
  log entry.
\<close>

definition process_line ::
  "catalog \<Rightarrow> string \<times> world \<Rightarrow> conditions \<times> string \<Rightarrow> error + (string \<times> world)" where
  "process_line cat st inp =
     (case st of (buffer, w) \<Rightarrow>
      case inp of (io, raw) \<Rightarrow>
        (let line = strip raw
         in if \<not> startswith line ''ZCZC-'' then Inr (buffer, w)
            else
              (let buffer' = buffer @ line
               in if endswith line ''-'' then
                    (case decode_same_message cat io w buffer' of
                       Inl (e, w') \<Rightarrow> Inr ([], w')
                     | Inr w' \<Rightarrow> Inr ([], w'))
                  else Inr (buffer', w))))"

fun stream_loop ::
  "catalog \<Rightarrow> string \<times> world \<Rightarrow> (conditions \<times> string) list \<Rightarrow> error + (string \<times> world)" where
  "stream_loop cat st [] = Inr st"
| "stream_loop cat st (inp # inps) =
     (case process_line cat st inp of
        Inl e \<Rightarrow> Inl e
      | Inr st' \<Rightarrow> stream_loop cat st' inps)"

text \<open>
  \<^verbatim>\<open>stream_decode_from_stdin\<close> after its two start-up calls (database migration and
  loading of the reference tables): the loop from an empty buffer.
\<close>

definition stream_decode_from_stdin ::
  "catalog \<Rightarrow> world \<Rightarrow> (conditions \<times> string) list \<Rightarrow> error + (string \<times> world)" where
  "stream_decode_from_stdin cat w inps = stream_loop cat ([], w) inps"

text \<open>The world a decode leaves behind, whether it returned or raised.\<close>

definition outcome_world :: "(error \<times> world) + world \<Rightarrow> world" where
  "outcome_world r = (case r of Inl (e, w) \<Rightarrow> w | Inr w \<Rightarrow> w)"

section \<open>Schema migrations (database\_migrations.py)\<close>

text \<open>
  The SQLite database at the level the migrations work on: the \<^verbatim>\<open>alerts\<close> table (its
  column names and its number of rows) when it exists, the indexes on it (name and
  indexed column), and the \<^verbatim>\<open>version\<close> values of the rows of \<^verbatim>\<open>schema_version\<close> in
  \<^verbatim>\<open>id\<close> order when that table exists.
\<close>

record sql_table =
  tbl_columns :: "string list"
  tbl_rows :: nat

record database =
  alerts :: "sql_table option"
  indexes :: "(string \<times> string) list"
  schema_version :: "int list option"

datatype log_event =
    LogCurrentVersion int
  | LogTargetVersion int
  | LogUpToDate
  | LogNewerThanExpected int int
  | LogBackedUp
  | LogCreatedBackup
  | LogRunningV0V1
  | LogRunningV1V2
  | LogAddedEventCode
  | LogAddedCreatedAt
  | LogAddedIndexes
  | LogMigratedTo int
  | LogDatabaseError error
  | LogMissingColumns "string list"
  | LogExtraColumns "string list"
  | LogValidationPassed
  | LogAllCompleted
  | LogValidationFailed
  | LogMigrationFailed error
  | LogConsiderRestoring

record store =
  db :: database
  backup :: "database option"
  log :: "log_event list"

definition logger :: "log_event \<Rightarrow> store \<Rightarrow> store" where
  "logger ev s = s\<lparr>log := log s @ [ev]\<rparr>"

definition CURRENT_SCHEMA_VERSION :: int where
  "CURRENT_SCHEMA_VERSION = 2"

text \<open>
  \<^verbatim>\<open>get_schema_version\<close>: 0 without the version table or without a row in it, else the
  version of the row with the greatest \<^verbatim>\<open>id\<close>. (On this model its two queries cannot
  raise; the source answers 0 when they do.)
\<close>

definition get_schema_version :: "database \<Rightarrow> int" where
  "get_schema_version d =
     (case schema_version d of
        None \<Rightarrow> 0
      | Some rows \<Rightarrow> if rows = [] then 0 else last rows)"

text \<open>
  \<^verbatim>\<open>set_schema_version\<close>: the table is created when missing and one row is inserted
  (its description is determined by the version).
\<close>

definition set_schema_version :: "int \<Rightarrow> database \<Rightarrow> database" where
  "set_schema_version version d =
     d\<lparr>schema_version :=
          Some ((case schema_version d of None \<Rightarrow> [] | Some rows \<Rightarrow> rows) @ [version])\<rparr>"

text \<open>
  \<^verbatim>\<open>backup_database\<close>: the database file exists when \<^verbatim>\<open>run_migrations\<close> calls it,
  since \<^verbatim>\<open>get_schema_version\<close> has connected to it before.
\<close>

definition backup_database :: "store \<Rightarrow> store" where
  "backup_database s = logger LogBackedUp (s\<lparr>backup := Some (db s)\<rparr>)"

definition base_columns :: "string list" where
  "base_columns = [''id'', ''timestamp_utc'', ''originator'', ''event'', ''fips_codes'',
                   ''regions'', ''duration_minutes'', ''issued_code'', ''source'',
                   ''raw_message'']"

definition migration_v0_to_v1 :: "store \<Rightarrow> (error \<times> store) + store" where
  "migration_v0_to_v1 s0 =
     (let s = logger LogRunningV0V1 s0
      in Inr (case alerts (db s) of
                None \<Rightarrow>
                  s\<lparr>db := (db s)\<lparr>alerts :=
                         Some \<lparr>tbl_columns = base_columns, tbl_rows = 0\<rparr>\<rparr>\<rparr>
              | Some t \<Rightarrow> s))"

text \<open>\<^verbatim>\<open>PRAGMA table_info(alerts)\<close>: no rows for a missing table.\<close>

definition table_info :: "database \<Rightarrow> string list" where
  "table_info d = (case alerts d of None \<Rightarrow> [] | Some t \<Rightarrow> tbl_columns t)"

text \<open>
  SQLite compares the names of columns and indexes without regard to the case of the
  letters A to Z; Python's \<^verbatim>\<open>in\<close> on the names read by \<^verbatim>\<open>PRAGMA table_info\<close>
  compares them exactly.
\<close>

definition ascii_lower :: "char \<Rightarrow> char" where
  "ascii_lower c =
     (case map_of (zip ''ABCDEFGHIJKLMNOPQRSTUVWXYZ'' ''abcdefghijklmnopqrstuvwxyz'') c of
        None \<Rightarrow> c
      | Some l \<Rightarrow> l)"

definition sql_name :: "string \<Rightarrow> string" where
  "sql_name s = map ascii_lower s"

text \<open>
  \<^verbatim>\<open>ALTER TABLE alerts ADD COLUMN\<close>. SQLite refuses a column whose default is not a
  constant (\<^verbatim>\<open>CURRENT_TIMESTAMP\<close>) when the table has rows. Schema statements take
  effect at once, so a later failure does not undo them.
\<close>

definition add_column :: "bool \<Rightarrow> string \<Rightarrow> database \<Rightarrow> error + database" where
  "add_column constant_default col d =
     (case alerts d of
        None \<Rightarrow> Inl (NoSuchTable ''alerts'')
      | Some t \<Rightarrow>
          if sql_name col \<in> set (map sql_name (tbl_columns t)) then Inl (DuplicateColumn col)
          else if \<not> constant_default \<and> tbl_rows t > 0 then Inl NonConstantDefault
          else Inr (d\<lparr>alerts := Some (t\<lparr>tbl_columns := tbl_columns t @ [col]\<rparr>)\<rparr>))"

text \<open>\<^verbatim>\<open>CREATE INDEX IF NOT EXISTS name ON alerts(col)\<close>.\<close>

definition create_index :: "string \<times> string \<Rightarrow> database \<Rightarrow> error + database" where
  "create_index ix d =
     (case alerts d of
        None \<Rightarrow> Inl (NoSuchTable ''alerts'')
      | Some t \<Rightarrow>
          if sql_name (fst ix) \<in> set (map (\<lambda>i. sql_name (fst i)) (indexes d)) then Inr d
          else if sql_name (snd ix) \<notin> set (map sql_name (tbl_columns t))
          then Inl (NoSuchColumn (snd ix))
          else Inr (d\<lparr>indexes := indexes d @ [ix]\<rparr>))"

fun create_indexes :: "(string \<times> string) list \<Rightarrow> database \<Rightarrow> (error \<times> database) + database" where
  "create_indexes [] d = Inr d"
| "create_indexes (ix # ixs) d =
     (case create_index ix d of
        Inl e \<Rightarrow> Inl (e, d)
      | Inr d' \<Rightarrow> create_indexes ixs d')"

definition v2_indexes :: "(string \<times> string) list" where
  "v2_indexes = [(''idx_alerts_timestamp'', ''timestamp_utc''),
                 (''idx_alerts_event_code'', ''event_code''),
                 (''idx_alerts_originator'', ''originator''),
                 (''idx_alerts_created_at'', ''created_at'')]"

definition add_if_missing ::
  "string list \<Rightarrow> bool \<Rightarrow> string \<Rightarrow> log_event \<Rightarrow> store \<Rightarrow> (error \<times> store) + store" where
  "add_if_missing existing_columns constant_default col ev s =
     (if col \<notin> set existing_columns then
        (case add_column constant_default col (db s) of
           Inl e \<Rightarrow> Inl (e, logger (LogDatabaseError e) s)
         | Inr d \<Rightarrow> Inr (logger ev (s\<lparr>db := d\<rparr>)))
      else Inr s)"

definition migration_v1_to_v2 :: "store \<Rightarrow> (error \<times> store) + store" where
  "migration_v1_to_v2 s0 =
     (let s = logger LogRunningV1V2 s0;
          existing_columns = table_info (db s)
      in case add_if_missing existing_columns True ''event_code'' LogAddedEventCode s of
           Inl es \<Rightarrow> Inl es
         | Inr s1 \<Rightarrow>
             (case add_if_missing existing_columns False ''created_at'' LogAddedCreatedAt s1 of
                Inl es \<Rightarrow> Inl es
              | Inr s2 \<Rightarrow>
                  (case create_indexes v2_indexes (db s2) of
                     Inl (e, d) \<Rightarrow> Inl (e, logger (LogDatabaseError e) (s2\<lparr>db := d\<rparr>))
                   | Inr d \<Rightarrow> Inr (logger LogAddedIndexes (s2\<lparr>db := d\<rparr>)))))"

definition expected_columns :: "string list" where
  "expected_columns = [''id'', ''timestamp_utc'', ''originator'', ''event'', ''event_code'',
                       ''fips_codes'', ''regions'', ''duration_minutes'', ''issued_code'',
                       ''source'', ''raw_message'', ''created_at'']"

definition validate_schema :: "store \<Rightarrow> bool \<times> store" where
  "validate_schema s =
     (let actual_columns = table_info (db s);
          missing_columns = filter (\<lambda>c. c \<notin> set actual_columns) expected_columns;
          extra_columns = filter (\<lambda>c. c \<notin> set expected_columns) actual_columns
      in if missing_columns \<noteq> [] then (False, logger (LogMissingColumns missing_columns) s)
         else
           (let s1 = (if extra_columns \<noteq> [] then logger (LogExtraColumns extra_columns) s
                      else s)
            in (True, logger LogValidationPassed s1)))"

definition migrations :: "(int \<times> int \<times> (store \<Rightarrow> (error \<times> store) + store)) list" where
  "migrations = [(0, 1, migration_v0_to_v1), (1, 2, migration_v1_to_v2)]"

text \<open>
  The loop over \<^verbatim>\<open>migrations\<close> in \<^verbatim>\<open>run_migrations\<close>, with the local variable
  \<^verbatim>\<open>current_version\<close>.
\<close>

fun run_steps ::
  "(int \<times> int \<times> (store \<Rightarrow> (error \<times> store) + store)) list \<Rightarrow> int \<Rightarrow> store
     \<Rightarrow> (error \<times> store) + (int \<times> store)" where
  "run_steps [] current_version s = Inr (current_version, s)"
| "run_steps ((from_version, to_version, migration_func) # ms) current_version s =
     (if current_version = from_version then
        (case migration_func s of
           Inl es \<Rightarrow> Inl es
         | Inr s1 \<Rightarrow>
             run_steps ms to_version
               (logger (LogMigratedTo to_version)
                  (s1\<lparr>db := set_schema_version to_version (db s1)\<rparr>)))
      else run_steps ms current_version s)"

definition run_migrations :: "store \<Rightarrow> (error + bool) \<times> store" where
  "run_migrations s0 =
     (let current_version = get_schema_version (db s0);
          s = logger (LogTargetVersion CURRENT_SCHEMA_VERSION)
                (logger (LogCurrentVersion current_version) s0)
      in if current_version = CURRENT_SCHEMA_VERSION then (Inr True, logger LogUpToDate s)
         else if current_version > CURRENT_SCHEMA_VERSION
         then (Inr False,
               logger (LogNewerThanExpected current_version CURRENT_SCHEMA_VERSION) s)
         else
           (let s1 = logger LogCreatedBackup (backup_database s)
            in case run_steps migrations current_version s1 of
                 Inl (e, s2) \<Rightarrow>
                   (Inl e, logger LogConsiderRestoring (logger (LogMigrationFailed e) s2))
               | Inr (v, s2) \<Rightarrow>
                   (case validate_schema s2 of
                      (True, s3) \<Rightarrow> (Inr True, logger LogAllCompleted s3)
                    | (False, s3) \<Rightarrow> (Inr False, logger LogValidationFailed s3))))"

text \<open>The version records of a database, oldest first (none without the table).\<close>

definition version_rows :: "database \<Rightarrow> int list" where
  "version_rows d = (case schema_version d of None \<Rightarrow> [] | Some rows \<Rightarrow> rows)"

section \<open>Auxiliary facts\<close>

lemma decode_parse_fail:
  "parse_same_message msg = Inl e \<Longrightarrow> decode_same_message cat io w msg = Inl (e, w)"
  by (simp add: decode_same_message_def)

lemma parse_ok_fields:
  assumes "parse_same_message msg = Inr p"
  shows "isdigit (duration p) \<and> length (duration p) = 4 \<and>
         isdigit (timestamp p) \<and> length (timestamp p) = 7"
  using assms
  by (auto simp: parse_same_message_def check_fields_def
           split: sum.splits if_splits prod.splits)

lemma parsed_duration:
  assumes "scan_header msg = Inr (orig, ev, sc)" and "sc_duration sc = Some d"
    and "parse_same_message msg = Inr p"
  shows "duration p = d"
  using assms
  by (auto simp: parse_same_message_def check_fields_def split: if_splits)

lemma scan_parts_found:
  assumes "\<forall>p\<in>set pre. CHR ''+'' \<notin> set p" and "CHR ''+'' \<in> set tok"
  shows "scan_parts acc (pre @ tok # rest) =
     (case rest of
        ts # st # _ \<Rightarrow>
          Inr \<lparr>sc_fips = acc @ filter (\<lambda>s. s \<noteq> [])
                           (map strip (pre @ [takeWhile (\<lambda>c. c \<noteq> CHR ''+'') tok])),
               sc_duration = Some (tl (dropWhile (\<lambda>c. c \<noteq> CHR ''+'') tok)),
               sc_timestamp = Some (strip ts), sc_station = Some (strip st)\<rparr>
      | _ \<Rightarrow> Inl IncompleteAfterDuration)"
  using assms
proof (induction pre arbitrary: acc)
  case Nil
  then show ?case by (simp add: Let_def split: list.splits)
next
  case (Cons p pre)
  then show ?case by (simp add: Let_def split: list.splits)
qed

lemma foldl_decimal:
  "foldl (\<lambda>acc c. 10 * acc + digit_value c) a s =
     a * 10 ^ length s + foldl (\<lambda>acc c. 10 * acc + digit_value c) 0 s"
proof (induction s arbitrary: a)
  case Nil
  then show ?case by simp
next
  case (Cons c s)
  let ?f = "\<lambda>acc c. 10 * acc + digit_value c"
  have 1: "foldl ?f (10 * a + digit_value c) s =
             (10 * a + digit_value c) * 10 ^ length s + foldl ?f 0 s"
    by (rule Cons.IH)
  have 2: "foldl ?f (digit_value c) s = digit_value c * 10 ^ length s + foldl ?f 0 s"
    by (rule Cons.IH)
  have "foldl ?f a (c # s) = foldl ?f (10 * a + digit_value c) s" by simp
  also have "\<dots> = a * 10 ^ length (c # s) + foldl ?f (digit_value c) s"
    unfolding 1 2 by (simp add: algebra_simps)
  also have "foldl ?f (digit_value c) s = foldl ?f 0 (c # s)" by simp
  finally show ?case .
qed

lemma decimal_value_append:
  "decimal_value (a @ b) = decimal_value a * 10 ^ length b + decimal_value b"
  unfolding decimal_value_def foldl_append
  by (rule foldl_decimal)

lemma decimal_value_hhmm:
  assumes "length d = 4"
  shows "decimal_value d = 100 * decimal_value (take 2 d) + decimal_value (drop 2 d)"
proof -
  have "decimal_value (take 2 d @ drop 2 d) =
          decimal_value (take 2 d) * 10 ^ length (drop 2 d) + decimal_value (drop 2 d)"
    by (rule decimal_value_append)
  with assms show ?thesis by simp
qed

lemma process_line_total: "\<exists>st'. process_line cat st inp = Inr st'"
  by (cases st; cases inp)
     (auto simp: process_line_def Let_def split: sum.splits prod.splits)

lemma stream_loop_total: "\<exists>st'. stream_loop cat st inps = Inr st'"
proof (induction inps arbitrary: st)
  case Nil
  then show ?case by simp
next
  case (Cons inp inps)
  obtain st1 where "process_line cat st inp = Inr st1"
    using process_line_total by blast
  with Cons show ?case by simp
qed

lemma process_line_failed:
  assumes "startswith (strip l) ''ZCZC-''" and "endswith (strip l) ''-''"
    and "decode_same_message cat io w (buf @ strip l) = Inl (e, w1)"
  shows "process_line cat (buf, w) (io, l) = Inr ([], w1)"
  using assms by (simp add: process_line_def Let_def)

lemma process_line_empty_buffer:
  assumes "startswith (strip n) ''ZCZC-'' \<longrightarrow> endswith (strip n) ''-''"
  shows "process_line cat ([], w) (io, n) =
           Inr ([], if startswith (strip n) ''ZCZC-''
                    then outcome_world (decode_same_message cat io w (strip n)) else w)"
  using assms
  by (auto simp: process_line_def Let_def outcome_world_def split: sum.splits prod.splits)

lemma stream_loop_whole_lines:
  assumes "\<forall>(io, n)\<in>set inps. startswith (strip n) ''ZCZC-'' \<longrightarrow> endswith (strip n) ''-''"
  shows "stream_loop cat ([], w) inps =
           Inr ([], foldl (\<lambda>w' (io, n).
                      if startswith (strip n) ''ZCZC-''
                      then outcome_world (decode_same_message cat io w' (strip n)) else w')
                    w inps)"
  using assms
proof (induction inps arbitrary: w)
  case Nil
  then show ?case by simp
next
  case (Cons inp inps)
  obtain io n where inp: "inp = (io, n)" by (cases inp)
  from Cons.prems inp
  have h: "startswith (strip n) ''ZCZC-'' \<longrightarrow> endswith (strip n) ''-''" by simp
  from Cons.prems
  have t: "\<forall>(io, n)\<in>set inps. startswith (strip n) ''ZCZC-'' \<longrightarrow> endswith (strip n) ''-''"
    by simp
  show ?case
    unfolding inp
    by (simp add: process_line_empty_buffer [OF h] Cons.IH [OF t])
qed

lemma get_schema_version_rows:
  "get_schema_version d = (if version_rows d = [] then 0 else last (version_rows d))"
  by (simp add: get_schema_version_def version_rows_def split: option.splits)

lemma version_rows_set: 
  "version_rows (set_schema_version v d) = version_rows d @ [v]"
  by (simp add: set_schema_version_def version_rows_def)

lemma add_column_rows: "add_column c col d = Inr d' \<Longrightarrow> version_rows d' = version_rows d"
  by (auto simp: add_column_def version_rows_def split: option.splits if_splits)

lemma create_index_rows: "create_index ix d = Inr d' \<Longrightarrow> version_rows d' = version_rows d"
  by (auto simp: create_index_def version_rows_def split: option.splits if_splits)

lemma create_indexes_rows:
  "(\<forall>d'. create_indexes ixs d = Inr d' \<longrightarrow> version_rows d' = version_rows d) \<and>
   (\<forall>e d'. create_indexes ixs d = Inl (e, d') \<longrightarrow> version_rows d' = version_rows d)"
proof (induction ixs arbitrary: d)
  case Nil
  then show ?case by simp
next
  case (Cons ix ixs)
  show ?case
  proof (cases "create_index ix d")
    case (Inl e')
    then show ?thesis by simp
  next
    case (Inr d1)
    with Cons [of d1] create_index_rows [OF Inr] show ?thesis by simp
  qed
qed

lemma logger_db: "db (logger ev s) = db s"
  by (simp add: logger_def)

lemma add_if_missing_ok:
  "add_if_missing ex c col ev s = Inr s' \<Longrightarrow> version_rows (db s') = version_rows (db s)"
  unfolding add_if_missing_def
  by (cases "col \<notin> set ex"; cases "add_column c col (db s)")
     (auto simp: logger_db dest: add_column_rows)

lemma add_if_missing_err:
  "add_if_missing ex c col ev s = Inl (e, s') \<Longrightarrow> version_rows (db s') = version_rows (db s)"
  unfolding add_if_missing_def
  by (cases "col \<notin> set ex"; cases "add_column c col (db s)")
     (auto simp: logger_db)

lemma migration_v0_to_v1_rows:
  "\<exists>s'. migration_v0_to_v1 s = Inr s' \<and> version_rows (db s') = version_rows (db s)"
  by (cases "alerts (db s)")
     (simp_all add: migration_v0_to_v1_def Let_def version_rows_def logger_def)

lemma migration_v1_to_v2_rows:
  "(\<forall>s'. migration_v1_to_v2 s = Inr s' \<longrightarrow> version_rows (db s') = version_rows (db s)) \<and>
   (\<forall>e s'. migration_v1_to_v2 s = Inl (e, s') \<longrightarrow> version_rows (db s') = version_rows (db s))"
proof -
  let ?s = "logger LogRunningV1V2 s"
  let ?ex = "table_info (db ?s)"
  show ?thesis
  proof (cases "add_if_missing ?ex True ''event_code'' LogAddedEventCode ?s")
    case (Inl es)
    obtain e1 sa where es: "es = (e1, sa)" by (cases es)
    have m: "migration_v1_to_v2 s = Inl (e1, sa)"
      by (simp add: migration_v1_to_v2_def Let_def Inl es)
    have "version_rows (db sa) = version_rows (db s)"
      using add_if_missing_err [OF Inl [unfolded es]] by (simp add: logger_db)
    with m show ?thesis by simp
  next
    case s1: (Inr s1)
    have r1: "version_rows (db s1) = version_rows (db s)"
      using add_if_missing_ok [OF s1] by (simp add: logger_db)
    show ?thesis
    proof (cases "add_if_missing ?ex False ''created_at'' LogAddedCreatedAt s1")
      case (Inl es)
      obtain e1 sa where es: "es = (e1, sa)" by (cases es)
      have m: "migration_v1_to_v2 s = Inl (e1, sa)"
        by (simp add: migration_v1_to_v2_def Let_def s1 Inl es)
      have "version_rows (db sa) = version_rows (db s)"
        using add_if_missing_err [OF Inl [unfolded es]] r1 by simp
      with m show ?thesis by simp
    next
      case s2: (Inr s2)
      have r2: "version_rows (db s2) = version_rows (db s)"
        using add_if_missing_ok [OF s2] r1 by simp
      show ?thesis
      proof (cases "create_indexes v2_indexes (db s2)")
        case (Inl ed)
        obtain e1 d1 where ed: "ed = (e1, d1)" by (cases ed)
        have m: "migration_v1_to_v2 s =
                   Inl (e1, logger (LogDatabaseError e1) (s2\<lparr>db := d1\<rparr>))"
          by (simp add: migration_v1_to_v2_def Let_def s1 s2 Inl ed)
        have "version_rows d1 = version_rows (db s)"
          using create_indexes_rows [of v2_indexes "db s2"] Inl ed r2 by simp
        with m show ?thesis by (simp add: logger_db)
      next
        case (Inr d1)
        have m: "migration_v1_to_v2 s = Inr (logger LogAddedIndexes (s2\<lparr>db := d1\<rparr>))"
          by (simp add: migration_v1_to_v2_def Let_def s1 s2 Inr)
        have "version_rows d1 = version_rows (db s)"
          using create_indexes_rows [of v2_indexes "db s2"] Inr r2 by simp
        with m show ?thesis by (simp add: logger_db)
      qed
    qed
  qed
qed

lemma validate_schema_db: "db (snd (validate_schema s)) = db s"
  by (simp add: validate_schema_def Let_def logger_db)

lemma backup_database_db: "db (backup_database s) = db s"
  by (simp add: backup_database_def logger_db)

lemma run_steps_rows:
  "\<exists>new s'. ((\<exists>e. run_steps migrations v s = Inl (e, s')) \<or>
             (\<exists>v'. run_steps migrations v s = Inr (v', s'))) \<and>
            version_rows (db s') = version_rows (db s) @ new \<and>
            sorted_wrt (<) (v # new)"
proof -
  consider (zero) "v = 0" | (one) "v = 1" | (other) "v \<noteq> 0" "v \<noteq> 1" by blast
  then show ?thesis
  proof cases
    case zero
    obtain sa where sa: "migration_v0_to_v1 s = Inr sa"
      and ra: "version_rows (db sa) = version_rows (db s)"
      using migration_v0_to_v1_rows by blast
    let ?sb = "logger (LogMigratedTo 1) (sa\<lparr>db := set_schema_version 1 (db sa)\<rparr>)"
    have rb: "version_rows (db ?sb) = version_rows (db s) @ [1]"
      by (simp add: logger_db version_rows_set ra)
    have step: "run_steps migrations v s = run_steps [(1, 2, migration_v1_to_v2)] 1 ?sb"
      by (simp add: migrations_def zero sa)
    show ?thesis
    proof (cases "migration_v1_to_v2 ?sb")
      case (Inl es)
      obtain e sc where es: "es = (e, sc)" by (cases es)
      have rc: "version_rows (db sc) = version_rows (db s) @ [1]"
        using migration_v1_to_v2_rows [of ?sb] Inl es rb by simp
      have "run_steps migrations v s = Inl (e, sc)"
        by (simp add: step Inl es)
      with rc zero show ?thesis by (intro exI [of _ "[1]"] exI [of _ sc]) simp
    next
      case (Inr sc)
      let ?sd = "logger (LogMigratedTo 2) (sc\<lparr>db := set_schema_version 2 (db sc)\<rparr>)"
      have rc: "version_rows (db sc) = version_rows (db s) @ [1]"
        using migration_v1_to_v2_rows [of ?sb] Inr rb by simp
      have rd: "version_rows (db ?sd) = version_rows (db s) @ [1, 2]"
        by (simp add: logger_db version_rows_set rc)
      have "run_steps migrations v s = Inr (2, ?sd)"
        by (simp add: step Inr)
      with rd zero show ?thesis by (intro exI [of _ "[1, 2]"] exI [of _ ?sd]) simp
    qed
  next
    case one
    have step: "run_steps migrations v s = run_steps [(1, 2, migration_v1_to_v2)] 1 s"
      by (simp add: migrations_def one)
    show ?thesis
    proof (cases "migration_v1_to_v2 s")
      case (Inl es)
      obtain e sc where es: "es = (e, sc)" by (cases es)
      have rc: "version_rows (db sc) = version_rows (db s)"
        using migration_v1_to_v2_rows [of s] Inl es by simp
      have "run_steps migrations v s = Inl (e, sc)"
        by (simp add: step Inl es)
      with rc one show ?thesis by (intro exI [of _ "[]"] exI [of _ sc]) simp
    next
      case (Inr sc)
      let ?sd = "logger (LogMigratedTo 2) (sc\<lparr>db := set_schema_version 2 (db sc)\<rparr>)"
      have rc: "version_rows (db sc) = version_rows (db s)"
        using migration_v1_to_v2_rows [of s] Inr by simp
      have rd: "version_rows (db ?sd) = version_rows (db s) @ [2]"
        by (simp add: logger_db version_rows_set rc)
      have "run_steps migrations v s = Inr (2, ?sd)"
        by (simp add: step Inr)
      with rd one show ?thesis by (intro exI [of _ "[2]"] exI [of _ ?sd]) simp
    qed
  next
    case other
    then have "run_steps migrations v s = Inr (v, s)"
      by (simp add: migrations_def)
    then show ?thesis by (intro exI [of _ "[]"] exI [of _ s]) simp
  qed
qed

lemma run_migrations_rows:
  "\<exists>new. version_rows (db (snd (run_migrations s))) = version_rows (db s) @ new \<and>
         sorted_wrt (<) (get_schema_version (db s) # new)"
proof -
  let ?v = "get_schema_version (db s)"
  let ?s0 = "logger (LogTargetVersion CURRENT_SCHEMA_VERSION) (logger (LogCurrentVersion ?v) s)"
  let ?s1 = "logger LogCreatedBackup (backup_database ?s0)"
  have d1: "db ?s1 = db s" by (simp add: logger_db backup_database_db)
  show ?thesis
  proof (cases "?v = CURRENT_SCHEMA_VERSION \<or> ?v > CURRENT_SCHEMA_VERSION")
    case True
    then have "db (snd (run_migrations s)) = db s"
      by (auto simp: run_migrations_def Let_def logger_db)
    then show ?thesis by (intro exI [of _ "[]"]) simp
  next
    case False
    obtain new s' where
      r: "(\<exists>e. run_steps migrations ?v ?s1 = Inl (e, s')) \<or>
          (\<exists>v'. run_steps migrations ?v ?s1 = Inr (v', s'))"
      and rows: "version_rows (db s') = version_rows (db ?s1) @ new"
      and srt: "sorted_wrt (<) (?v # new)"
      using run_steps_rows [of ?v ?s1] by blast
    from r have "db (snd (run_migrations s)) = db s'"
    proof
      assume "\<exists>e. run_steps migrations ?v ?s1 = Inl (e, s')"
      then obtain e where a: "run_steps migrations ?v ?s1 = Inl (e, s')" by blast
      show ?thesis
        using False
        by (simp add: run_migrations_def Let_def a logger_db)
    next
      assume "\<exists>v'. run_steps migrations ?v ?s1 = Inr (v', s')"
      then obtain v' where a: "run_steps migrations ?v ?s1 = Inr (v', s')" by blast
      have "db (snd (case validate_schema s' of
                       (True, s3) \<Rightarrow> (Inr True, logger LogAllCompleted s3)
                     | (False, s3) \<Rightarrow> (Inr False, logger LogValidationFailed s3))) = db s'"
        using validate_schema_db [of s']
        by (cases "validate_schema s'") (auto simp: logger_db split: bool.splits)
      then show ?thesis
        using False
        by (simp add: run_migrations_def Let_def a)
    qed
    with rows srt d1 show ?thesis by (intro exI [of _ new]) simp
  qed
qed

section \<open>The reference header\<close>

text \<open>
  C4: parsing the header
  \<^verbatim>\<open>ZCZC-EAS-RWT-012057-012081-012101-012103-012115+0030-2780415-WTSP/TV-\<close>
  succeeds with originator EAS, event code RWT, the five area codes in broadcast order,
  duration 0030, issue timestamp 2780415 and station WTSP/TV.
\<close>

theorem parse_reference_header:
  "parse_same_message
     ''ZCZC-EAS-RWT-012057-012081-012101-012103-012115+0030-2780415-WTSP/TV-''
   = Inr \<lparr>originator = ''EAS'', event_code = ''RWT'',
          fips_codes = [''012057'', ''012081'', ''012101'', ''012103'', ''012115''],
          duration = ''0030'', timestamp = ''2780415'', station_id = ''WTSP/TV''\<rparr>"
  by code_simp

section \<open>Over-long input\<close>

text \<open>
  C10, as stated, fails: a string of more than 1000 characters that does not start with
  the start marker is rejected for the missing marker, which is checked before the
  length; here 1001 letters \<open>A\<close>.
\<close>

theorem too_long_without_marker:
  "length (strip (replicate 1001 (CHR ''A''))) > 1000 \<and>
   parse_same_message (replicate 1001 (CHR ''A'')) = Inl MissingStartMarker \<and>
   parse_same_message (replicate 1001 (CHR ''A'')) \<noteq> Inl (MessageTooLong 1001)"
  by code_simp

text \<open>
  C10, amended: every input that, once trimmed, starts with the start marker and is longer
  than 1000 characters is rejected with the "Message too long" error, carrying its length,
  by the format validation, before the header is split into tokens.
\<close>

theorem too_long_rejected:
  assumes "startswith (strip msg) ''ZCZC-''" and "length (strip msg) > 1000"
  shows "validate_same_message_format msg = Inl (MessageTooLong (length (strip msg))) \<and>
         parse_same_message msg = Inl (MessageTooLong (length (strip msg)))"
proof -
  from assms(2) have ne: "strip msg \<noteq> []" by auto
  have v: "validate_same_message_format msg = Inl (MessageTooLong (length (strip msg)))"
    using assms ne by (simp add: validate_same_message_format_def Let_def)
  then show ?thesis
    by (simp add: parse_same_message_def scan_header_def split_header_def)
qed

theorem too_long_rejected_witness:
  "startswith (strip (''ZCZC-'' @ replicate 996 (CHR ''A''))) ''ZCZC-'' \<and>
   length (strip (''ZCZC-'' @ replicate 996 (CHR ''A''))) > 1000 \<and>
   parse_same_message (''ZCZC-'' @ replicate 996 (CHR ''A'')) = Inl (MessageTooLong 1001)"
proof -
  have a: "startswith (strip (''ZCZC-'' @ replicate 996 (CHR ''A''))) ''ZCZC-''"
    by code_simp
  have b: "length (strip (''ZCZC-'' @ replicate 996 (CHR ''A''))) = 1001"
    by code_simp
  from too_long_rejected [OF a] b show ?thesis using a by simp
qed

text \<open>
  Without the start marker an over-long input is rejected for the missing marker, whatever
  its length.
\<close>

lemma over_long_without_marker:
  assumes "\<not> startswith (strip msg) ''ZCZC-''" and "length (strip msg) > 1000"
  shows "parse_same_message msg = Inl MissingStartMarker"
proof -
  from assms(2) have "strip msg \<noteq> []" by auto
  with assms(1) have "validate_same_message_format msg = Inl MissingStartMarker"
    by (simp add: validate_same_message_format_def Let_def)
  then show ?thesis
    by (simp add: parse_same_message_def scan_header_def split_header_def)
qed

section \<open>Tokens after the duration\<close>

text \<open>
  C5, as stated, fails: in \<^verbatim>\<open>ZCZC-EAS-RWT-012057+0030-\<close> a token holds the duration
  separator and no token follows it, yet the header is rejected for having fewer than five
  tokens, a check made before the scan.
\<close>

theorem short_header_too_few_parts:
  "CHR ''+'' \<in> set ''012057+0030'' \<and>
   parse_same_message ''ZCZC-EAS-RWT-012057+0030-''
     = Inl (TooFewParts 3 [''EAS'', ''RWT'', ''012057+0030'']) \<and>
   parse_same_message ''ZCZC-EAS-RWT-012057+0030-'' \<noteq> Inl IncompleteAfterDuration"
  by code_simp

text \<open>
  C5, amended: for every raw header that passes the format validation, has at least five
  tokens and a non-empty originator and event code, let \<open>tok\<close> be the first token from
  index 2 on that contains \<open>+\<close>. When fewer than two tokens follow \<open>tok\<close>, parsing fails
  with the "incomplete message after duration" error. When two tokens follow it, the
  trimmed first is the issue timestamp and the trimmed second the station id, and the
  result of parsing is the field check of exactly these values: the tokens beyond them do
  not occur in it.
\<close>

theorem incomplete_after_duration:
  assumes "split_header msg = Inr parts"
    and "strip (parts ! 0) \<noteq> []" and "strip (parts ! 1) \<noteq> []"
    and "drop 2 parts = pre @ tok # rest"
    and "\<forall>p\<in>set pre. CHR ''+'' \<notin> set p" and "CHR ''+'' \<in> set tok"
  shows "(length rest < 2 \<longrightarrow> parse_same_message msg = Inl IncompleteAfterDuration) \<and>
         (\<forall>ts st extra. rest = ts # st # extra \<longrightarrow>
            parse_same_message msg =
              check_fields (strip (parts ! 0), strip (parts ! 1),
                \<lparr>sc_fips = filter (\<lambda>s. s \<noteq> [])
                             (map strip (pre @ [takeWhile (\<lambda>c. c \<noteq> CHR ''+'') tok])),
                 sc_duration = Some (tl (dropWhile (\<lambda>c. c \<noteq> CHR ''+'') tok)),
                 sc_timestamp = Some (strip ts), sc_station = Some (strip st)\<rparr>))"
proof -
  have sc: "scan_parts [] (drop 2 parts) =
     (case rest of
        ts # st # _ \<Rightarrow>
          Inr \<lparr>sc_fips = filter (\<lambda>s. s \<noteq> [])
                           (map strip (pre @ [takeWhile (\<lambda>c. c \<noteq> CHR ''+'') tok])),
               sc_duration = Some (tl (dropWhile (\<lambda>c. c \<noteq> CHR ''+'') tok)),
               sc_timestamp = Some (strip ts), sc_station = Some (strip st)\<rparr>
      | _ \<Rightarrow> Inl IncompleteAfterDuration)"
    using scan_parts_found [OF assms(5,6), of "[]" rest] assms(4)
    by (simp split: list.splits)
  show ?thesis
    using assms(1,2,3) sc
    by (auto simp: parse_same_message_def scan_header_def Let_def split: list.splits)
qed

theorem incomplete_after_duration_witness:
  "parse_same_message ''ZCZC-EAS-RWT-012057-012081+0030-2780415-''
     = Inl IncompleteAfterDuration \<and>
   parse_same_message ''ZCZC-EAS-RWT-012057+0030-2780415-WTSP/TV-EXTRA-MORE-''
     = Inr \<lparr>originator = ''EAS'', event_code = ''RWT'', fips_codes = [''012057''],
            duration = ''0030'', timestamp = ''2780415'', station_id = ''WTSP/TV''\<rparr>"
proof -
  have s1: "split_header ''ZCZC-EAS-RWT-012057-012081+0030-2780415-''
              = Inr [''EAS'', ''RWT'', ''012057'', ''012081+0030'', ''2780415'']"
    by code_simp
  have a: "parse_same_message ''ZCZC-EAS-RWT-012057-012081+0030-2780415-''
             = Inl IncompleteAfterDuration"
    using incomplete_after_duration
            [OF s1, of "[''012057'']" "''012081+0030''" "[''2780415'']"]
    by (simp add: strip_def py_isspace_def)
  have s2: "split_header ''ZCZC-EAS-RWT-012057+0030-2780415-WTSP/TV-EXTRA-MORE-''
              = Inr [''EAS'', ''RWT'', ''012057+0030'', ''2780415'', ''WTSP/TV'',
                     ''EXTRA'', ''MORE'']"
    by code_simp
  have c: "check_fields (strip ''EAS'', strip ''RWT'',
             \<lparr>sc_fips = filter (\<lambda>s. s \<noteq> [])
                          (map strip ([] @ [takeWhile (\<lambda>c. c \<noteq> CHR ''+'') ''012057+0030''])),
              sc_duration = Some (tl (dropWhile (\<lambda>c. c \<noteq> CHR ''+'') ''012057+0030'')),
              sc_timestamp = Some (strip ''2780415''), sc_station = Some (strip ''WTSP/TV'')\<rparr>)
           = Inr \<lparr>originator = ''EAS'', event_code = ''RWT'', fips_codes = [''012057''],
                  duration = ''0030'', timestamp = ''2780415'', station_id = ''WTSP/TV''\<rparr>"
    by code_simp
  have b: "parse_same_message ''ZCZC-EAS-RWT-012057+0030-2780415-WTSP/TV-EXTRA-MORE-''
     = Inr \<lparr>originator = ''EAS'', event_code = ''RWT'', fips_codes = [''012057''],
            duration = ''0030'', timestamp = ''2780415'', station_id = ''WTSP/TV''\<rparr>"
    using incomplete_after_duration
            [OF s2, of "[]" "''012057+0030''" "[''2780415'', ''WTSP/TV'', ''EXTRA'', ''MORE'']"]
          c
    by (simp add: strip_def py_isspace_def)
  from a b show ?thesis by simp
qed

section \<open>Field format checks\<close>

text \<open>
  Headers whose 7-digit issue timestamp has ordinal day 0 or 367, hour 24 or minute 60
  all parse, and their timestamp is rendered as the text "Invalid timestamp (...)".
\<close>

lemma out_of_range_timestamps_parse:
  "map (\<lambda>ts. (map_sum id timestamp
                  (parse_same_message (''ZCZC-EAS-RWT-012057+0030-'' @ ts @ ''-WTSP/TV-'')),
                format_julian_timestamp 2025 ts))
     [''0000415'', ''3670415'', ''2782415'', ''2780460'']
   = [(Inr ''0000415'', InvalidTimestampText ''0000415''),
      (Inr ''3670415'', InvalidTimestampText ''3670415''),
      (Inr ''2782415'', InvalidTimestampText ''2782415''),
      (Inr ''2780460'', InvalidTimestampText ''2780460'')]"
  by code_simp

text \<open>
  C1, as stated, fails for the range part: the header
  \<^verbatim>\<open>ZCZC-EAS-RWT-012057+0030-0000415-WTSP/TV-\<close> has a 7-digit issue timestamp with
  ordinal day 0. It parses, \<^verbatim>\<open>format_julian_timestamp\<close> turns its own range error
  into the text "Invalid timestamp (0000415)", and the alert is inserted into the table
  and published as the snapshot.
\<close>

theorem out_of_range_timestamp_stored:
  "decode_same_message
     \<lparr>originators = Map.empty, events = Map.empty, counties = Map.empty\<rparr>
     \<lparr>clock_year = 2025, clock_text = ''2025-10-05 04:20:00'',
      insert_fails = False, write_fails = False\<rparr>
     \<lparr>alerts_table = [], last_message = None\<rparr>
     ''ZCZC-EAS-RWT-012057+0030-0000415-WTSP/TV-''
   = Inr \<lparr>alerts_table =
            [\<lparr>row_timestamp_utc = InvalidTimestampText ''0000415'',
              row_originator = ''EAS'', row_event = ''RWT'', row_event_code = ''RWT'',
              row_fips_codes = ''012057'', row_regions = ''Unknown Region (012057)'',
              row_duration_minutes = 30, row_issued_code = ''0000415'',
              row_source = ''WTSP/TV'',
              row_raw_message = ''ZCZC-EAS-RWT-012057+0030-0000415-WTSP/TV-''\<rparr>],
          last_message =
            Some \<lparr>md_event = ''RWT'', md_event_code = ''RWT'', md_originator = ''EAS'',
                  md_source = ''WTSP/TV'',
                  md_issued_local = InvalidTimestampText ''0000415'',
                  md_duration_minutes = 30, md_regions = [''Unknown Region (012057)''],
                  md_updated = ''2025-10-05 04:20:00''\<rparr>\<rparr>"
  by code_simp

text \<open>
  A superscript digit (here U+00B3) is accepted by \<^verbatim>\<open>str.isdigit()\<close> and refused by
  \<^verbatim>\<open>int()\<close>: in the timestamp it passes the field check and the alert is stored with the
  "Invalid timestamp" text; in the duration it passes the field check and enrichment raises.
\<close>

lemma superscript_digit_tokens:
  "map_sum fst (\<lambda>w. map row_timestamp_utc (alerts_table w))
     (decode_same_message
        \<lparr>originators = Map.empty, events = Map.empty, counties = Map.empty\<rparr>
        \<lparr>clock_year = 2025, clock_text = ''2025-10-05 04:20:00'',
         insert_fails = False, write_fails = False\<rparr>
        \<lparr>alerts_table = [], last_message = None\<rparr>
        (''ZCZC-EAS-RWT-012057+0030-278041'' @ [CHR 0xB3] @ ''-WTSP/TV-''))
   = Inr [InvalidTimestampText (''278041'' @ [CHR 0xB3])] \<and>
   decode_same_message
     \<lparr>originators = Map.empty, events = Map.empty, counties = Map.empty\<rparr>
     \<lparr>clock_year = 2025, clock_text = ''2025-10-05 04:20:00'',
      insert_fails = False, write_fails = False\<rparr>
     \<lparr>alerts_table = [], last_message = None\<rparr>
     (''ZCZC-EAS-RWT-012057+00'' @ [CHR 0xB3] @ ''0-2780415-WTSP/TV-'')
   = Inl (IntValueError (''00'' @ [CHR 0xB3] @ ''0''),
          \<lparr>alerts_table = [], last_message = None\<rparr>)"
  by code_simp

text \<open>
  C1, amended: for every raw header on which the scan finds a duration token \<open>d\<close> and an
  issue timestamp token \<open>t\<close>:
  \<^item> if \<open>d\<close> is not exactly 4 decimal digits, the decode pipeline fails and leaves the alert
    table and the snapshot as they were;
  \<^item> if \<open>d\<close> is not exactly 4 characters accepted by \<^verbatim>\<open>str.isdigit()\<close>, or \<open>t\<close> is not
    exactly 7 characters accepted by \<^verbatim>\<open>str.isdigit()\<close>, parsing itself fails, and the
    pipeline fails with the same error and leaves table and snapshot as they were;
  \<^item> in the second case, when no field is empty and there is an area code, the error is the
    format error naming the violated field: the duration when it is malformed, else the
    timestamp.
  Nothing is claimed for a timestamp of 7 characters accepted by \<^verbatim>\<open>str.isdigit()\<close>,
  whether its day, hour or minute is out of range or it holds a superscript digit.
\<close>

theorem field_format_rejected:
  assumes "scan_header msg = Inr (orig, ev, sc)"
    and "sc_duration sc = Some d" and "sc_timestamp sc = Some t"
  shows "(\<not> (list_all is_decimal_digit d \<and> length d = 4) \<longrightarrow>
            (\<exists>e. decode_same_message cat io w msg = Inl (e, w))) \<and>
         (\<not> (isdigit d \<and> length d = 4) \<or> \<not> (isdigit t \<and> length t = 7) \<longrightarrow>
            (\<exists>e. parse_same_message msg = Inl e \<and>
                 decode_same_message cat io w msg = Inl (e, w))) \<and>
         (d \<noteq> [] \<and> t \<noteq> [] \<and> truthy (sc_station sc) \<and> sc_fips sc \<noteq> [] \<and>
          (\<not> (isdigit d \<and> length d = 4) \<or> \<not> (isdigit t \<and> length t = 7)) \<longrightarrow>
            parse_same_message msg =
              Inl (if \<not> (isdigit d \<and> length d = 4) then InvalidDurationFormat d
                   else InvalidTimestampFormat t))"
proof -
  have p: "parse_same_message msg = check_fields (orig, ev, sc)"
    using assms(1) by (simp add: parse_same_message_def)
  have orig: "orig \<noteq> [] \<and> ev \<noteq> []"
    using assms(1)
    by (auto simp: scan_header_def Let_def split: sum.splits if_splits)
  have 2: "\<not> (isdigit d \<and> length d = 4) \<or> \<not> (isdigit t \<and> length t = 7) \<longrightarrow>
            (\<exists>e. parse_same_message msg = Inl e \<and>
                 decode_same_message cat io w msg = Inl (e, w))"
  proof
    assume bad: "\<not> (isdigit d \<and> length d = 4) \<or> \<not> (isdigit t \<and> length t = 7)"
    have "\<exists>e. check_fields (orig, ev, sc) = Inl e"
      using assms(2,3) bad by (auto simp: check_fields_def)
    then obtain e where e: "parse_same_message msg = Inl e" using p by auto
    with decode_parse_fail [OF e]
    show "\<exists>e. parse_same_message msg = Inl e \<and>
                 decode_same_message cat io w msg = Inl (e, w)" by blast
  qed
  have 1: "\<not> (list_all is_decimal_digit d \<and> length d = 4) \<longrightarrow>
            (\<exists>e. decode_same_message cat io w msg = Inl (e, w))"
  proof
    assume nd: "\<not> (list_all is_decimal_digit d \<and> length d = 4)"
    show "\<exists>e. decode_same_message cat io w msg = Inl (e, w)"
    proof (cases "parse_same_message msg")
      case (Inl e)
      from decode_parse_fail [OF Inl] show ?thesis by blast
    next
      case (Inr pm)
      have dp: "duration pm = d" by (rule parsed_duration [OF assms(1,2) Inr])
      from parse_ok_fields [OF Inr] dp have "length d = 4" by simp
      with nd have "\<not> list_all is_decimal_digit d" by simp
      then have "create_alert_data cat io pm msg = Inl (IntValueError d)"
        by (simp add: create_alert_data_def py_int_def Let_def dp)
      then show ?thesis by (simp add: decode_same_message_def Inr)
    qed
  qed
  have 3: "d \<noteq> [] \<and> t \<noteq> [] \<and> truthy (sc_station sc) \<and> sc_fips sc \<noteq> [] \<and>
          (\<not> (isdigit d \<and> length d = 4) \<or> \<not> (isdigit t \<and> length t = 7)) \<longrightarrow>
            parse_same_message msg =
              Inl (if \<not> (isdigit d \<and> length d = 4) then InvalidDurationFormat d
                   else InvalidTimestampFormat t)"
    unfolding p using assms(2,3) orig by (auto simp: check_fields_def truthy_def)
  from 1 2 3 show ?thesis by blast
qed

theorem field_format_rejected_witness:
  "parse_same_message ''ZCZC-EAS-RWT-012057-012081+030-2780415-WTSP/TV-''
     = Inl (InvalidDurationFormat ''030'') \<and>
   decode_same_message
     \<lparr>originators = Map.empty, events = Map.empty, counties = Map.empty\<rparr>
     \<lparr>clock_year = 2025, clock_text = ''2025-10-05 04:20:00'',
      insert_fails = False, write_fails = False\<rparr>
     \<lparr>alerts_table = [], last_message = None\<rparr>
     ''ZCZC-EAS-RWT-012057-012081+030-2780415-WTSP/TV-''
     = Inl (InvalidDurationFormat ''030'', \<lparr>alerts_table = [], last_message = None\<rparr>)"
proof -
  have s: "scan_header ''ZCZC-EAS-RWT-012057-012081+030-2780415-WTSP/TV-'' =
     Inr (''EAS'', ''RWT'',
          \<lparr>sc_fips = [''012057'', ''012081''], sc_duration = Some ''030'',
           sc_timestamp = Some ''2780415'', sc_station = Some ''WTSP/TV''\<rparr>)"
    by code_simp
  from field_format_rejected [OF s,
         of "''030''" "''2780415''"
            "\<lparr>originators = Map.empty, events = Map.empty, counties = Map.empty\<rparr>"
            "\<lparr>clock_year = 2025, clock_text = ''2025-10-05 04:20:00'',
              insert_fails = False, write_fails = False\<rparr>"
            "\<lparr>alerts_table = [], last_message = None\<rparr>"]
  show ?thesis
    by (auto simp: truthy_def)
qed

section \<open>Duration and end time\<close>

text \<open>
  C2, as stated, fails: for the duration \<^verbatim>\<open>0130\<close> (one hour and thirty minutes, 90
  minutes by the claim) the alert carries 130 minutes, and the end time is the issue
  instant plus 130 minutes. The code converts the whole token with \<^verbatim>\<open>int\<close>.
\<close>

theorem duration_0130_is_130:
  "decimal_value ''01'' * 60 + decimal_value ''30'' = 90 \<and>
   create_alert_data
     \<lparr>originators = Map.empty, events = Map.empty, counties = Map.empty\<rparr>
     \<lparr>clock_year = 2025, clock_text = ''2025-10-05 04:20:00'',
      insert_fails = False, write_fails = False\<rparr>
     \<lparr>originator = ''EAS'', event_code = ''RWT'', fips_codes = [''012057''],
      duration = ''0130'', timestamp = ''2780415'', station_id = ''WTSP/TV''\<rparr>
     ''ZCZC-EAS-RWT-012057+0130-2780415-WTSP/TV-''
   = Inr \<lparr>alert_originator = ''EAS'', alert_event = ''RWT'', alert_event_code = ''RWT'',
          alert_fips_codes = [''012057''],
          alert_region_descriptions = [''Unknown Region (012057)''],
          alert_duration_minutes = 130,
          alert_timestamp_utc = Formatted 1064920575,
          alert_issued_code = ''2780415'', alert_source = ''WTSP/TV'',
          alert_raw_message = ''ZCZC-EAS-RWT-012057+0130-2780415-WTSP/TV-'',
          alert_end_time = Some 1064920705\<rparr>"
  by code_simp

text \<open>
  C2, amended: for every successfully parsed message, enrichment succeeds when the
  duration consists of decimal digits, and whenever it succeeds the alert's duration in
  minutes is the 4-digit duration string read as one decimal number, that is (first two
  digits) \<open>\<times>\<close> 100 + (last two digits); the computed end time is the issue instant plus
  that many minutes when the issue time was formatted (in a year of four digits, the end
  not beyond year 9999), and there is no end time otherwise.
\<close>

theorem duration_minutes_decimal:
  assumes "parse_same_message msg = Inr p"
  shows "(list_all is_decimal_digit (duration p) \<longrightarrow>
            (\<exists>a. create_alert_data cat io p msg = Inr a)) \<and>
         (\<forall>a. create_alert_data cat io p msg = Inr a \<longrightarrow>
            alert_duration_minutes a =
              100 * decimal_value (take 2 (duration p)) + decimal_value (drop 2 (duration p)) \<and>
            alert_end_time a =
              (case alert_timestamp_utc a of
                 Formatted t \<Rightarrow>
                   if 1440 * days_before_year 1000 \<le> t \<and>
                      datetime_in_range (t + alert_duration_minutes a)
                   then Some (t + alert_duration_minutes a) else None
               | InvalidTimestampText ts \<Rightarrow> None))"
proof -
  from parse_ok_fields [OF assms] have len: "length (duration p) = 4" by simp
  from len have ne: "duration p \<noteq> []" by auto
  have 1: "list_all is_decimal_digit (duration p) \<longrightarrow>
            (\<exists>a. create_alert_data cat io p msg = Inr a)"
    using ne by (simp add: create_alert_data_def py_int_def Let_def)
  have 2: "\<forall>a. create_alert_data cat io p msg = Inr a \<longrightarrow>
            alert_duration_minutes a =
              100 * decimal_value (take 2 (duration p)) + decimal_value (drop 2 (duration p)) \<and>
            alert_end_time a =
              (case alert_timestamp_utc a of
                 Formatted t \<Rightarrow>
                   if 1440 * days_before_year 1000 \<le> t \<and>
                      datetime_in_range (t + alert_duration_minutes a)
                   then Some (t + alert_duration_minutes a) else None
               | InvalidTimestampText ts \<Rightarrow> None)"
    using decimal_value_hhmm [OF len]
    by (auto simp: create_alert_data_def py_int_def Let_def strptime_utc_def
             split: if_splits time_text.splits)
  from 1 2 show ?thesis by blast
qed

theorem duration_minutes_decimal_witness:
  "parse_same_message ''ZCZC-EAS-RWT-012057+0130-2780415-WTSP/TV-'' =
     Inr \<lparr>originator = ''EAS'', event_code = ''RWT'', fips_codes = [''012057''],
          duration = ''0130'', timestamp = ''2780415'', station_id = ''WTSP/TV''\<rparr> \<and>
   (\<exists>a. create_alert_data
           \<lparr>originators = Map.empty, events = Map.empty, counties = Map.empty\<rparr>
           \<lparr>clock_year = 2025, clock_text = ''2025-10-05 04:20:00'',
            insert_fails = False, write_fails = False\<rparr>
           \<lparr>originator = ''EAS'', event_code = ''RWT'', fips_codes = [''012057''],
            duration = ''0130'', timestamp = ''2780415'', station_id = ''WTSP/TV''\<rparr>
           ''ZCZC-EAS-RWT-012057+0130-2780415-WTSP/TV-'' = Inr a \<and>
        alert_duration_minutes a = 130)"
proof -
  let ?cat = "\<lparr>originators = Map.empty, events = Map.empty, counties = Map.empty\<rparr>"
  let ?io = "\<lparr>clock_year = 2025, clock_text = ''2025-10-05 04:20:00'',
              insert_fails = False, write_fails = False\<rparr>"
  let ?p = "\<lparr>originator = ''EAS'', event_code = ''RWT'', fips_codes = [''012057''],
             duration = ''0130'', timestamp = ''2780415'', station_id = ''WTSP/TV''\<rparr>"
  let ?msg = "''ZCZC-EAS-RWT-012057+0130-2780415-WTSP/TV-''"
  have p: "parse_same_message ?msg = Inr ?p"
    by code_simp
  have d: "list_all is_decimal_digit (duration ?p)"
    by code_simp
  have v: "100 * decimal_value (take 2 (duration ?p)) + decimal_value (drop 2 (duration ?p))
             = 130"
    by code_simp
  note th = duration_minutes_decimal [OF p, of ?cat ?io]
  from th d obtain a where a: "create_alert_data ?cat ?io ?p ?msg = Inr a"
    by blast
  from th a have "alert_duration_minutes a =
      100 * decimal_value (take 2 (duration ?p)) + decimal_value (drop 2 (duration ?p))"
    by blast
  with v have "alert_duration_minutes a = 130" by simp
  with a p show ?thesis by blast
qed

section \<open>Region names in the snapshot\<close>

text \<open>
  When at least one region name lacks \<^verbatim>\<open>County\<close>, or the list is empty, the snapshot
  carries the list unchanged; names of the usual form lose their \<^verbatim>\<open>County\<close>.
\<close>

lemma regions_unchanged_without_county:
  assumes "\<exists>r\<in>set regions. \<not> contains ''County'' r"
  shows "snapshot_regions regions = regions"
  using assms by (auto simp: snapshot_regions_def list_all_iff)

lemma county_suffix_stripped:
  "snapshot_regions [''Pinellas County'', ''Polk County''] = [''Pinellas'', ''Polk'']"
  by code_simp

text \<open>
  C8 on the code: the test is for the substring \<^verbatim>\<open>County\<close>, the replacement removes
  \<^verbatim>\<open>" County"\<close> with its leading space. For the one region name \<^verbatim>\<open>County Durham\<close>
  every name contains the token, so by the claim, and by the comment above the statement
  (\<^verbatim>\<open>Remove 'County' if every region contains it\<close>), the token is to be stripped; the
  published list still holds the name unchanged.
\<close>

theorem county_prefix_not_stripped:
  "contains ''County'' ''County Durham'' \<and>
   write_last_message
     \<lparr>clock_year = 2025, clock_text = ''2025-10-05 04:20:00'',
      insert_fails = False, write_fails = False\<rparr>
     \<lparr>alerts_table = [], last_message = None\<rparr>
     \<lparr>alert_originator = ''EAS'', alert_event = ''RWT'', alert_event_code = ''RWT'',
      alert_fips_codes = [''012057''],
      alert_region_descriptions = [''County Durham''],
      alert_duration_minutes = 30,
      alert_timestamp_utc = Formatted 1064920575,
      alert_issued_code = ''2780415'', alert_source = ''WTSP/TV'',
      alert_raw_message = ''ZCZC-EAS-RWT-012057+0030-2780415-WTSP/TV-'',
      alert_end_time = Some 1064920605\<rparr>
   = Inr \<lparr>alerts_table = [],
          last_message =
            Some \<lparr>md_event = ''RWT'', md_event_code = ''RWT'', md_originator = ''EAS'',
                  md_source = ''WTSP/TV'', md_issued_local = Formatted 1064920575,
                  md_duration_minutes = 30, md_regions = [''County Durham''],
                  md_updated = ''2025-10-05 04:20:00''\<rparr>\<rparr>"
  by code_simp

section \<open>Continuation lines\<close>

text \<open>
  C3 on the code: a header broken over two lines. The first line starts with the marker
  and is buffered; the second does not start with the marker and is dropped although the
  buffer is not empty, so the buffer keeps the first line and nothing is decoded. Appended
  as the claim says, the two lines form a header that parses.
\<close>

theorem continuation_line_discarded:
  "stream_decode_from_stdin
     \<lparr>originators = Map.empty, events = Map.empty, counties = Map.empty\<rparr>
     \<lparr>alerts_table = [], last_message = None\<rparr>
     [(\<lparr>clock_year = 2025, clock_text = ''2025-10-05 04:20:00'',
        insert_fails = False, write_fails = False\<rparr>, ''ZCZC-EAS-RWT-012057-012081''),
      (\<lparr>clock_year = 2025, clock_text = ''2025-10-05 04:20:01'',
        insert_fails = False, write_fails = False\<rparr>, ''-012101+0030-2780415-WTSP/TV-'')]
   = Inr (''ZCZC-EAS-RWT-012057-012081'', \<lparr>alerts_table = [], last_message = None\<rparr>) \<and>
   parse_same_message (''ZCZC-EAS-RWT-012057-012081'' @ ''-012101+0030-2780415-WTSP/TV-'')
   = Inr \<lparr>originator = ''EAS'', event_code = ''RWT'',
          fips_codes = [''012057'', ''012081'', ''012101''],
          duration = ''0030'', timestamp = ''2780415'', station_id = ''WTSP/TV''\<rparr>"
  by code_simp

section \<open>Failure isolation in the framing loop\<close>

text \<open>
  C9, as stated, fails in its last part. After the header \<^verbatim>\<open>ZCZC-BAD-\<close>, whose parsing
  fails, comes the marker line \<^verbatim>\<open>ZCZC-EAS\<close> without terminator and then a well-formed
  header. The unterminated line stays in the buffer, the header is appended to it, and what
  is decoded and stored is the joined text, with originator \<^verbatim>\<open>EASZCZC\<close>; the
  well-formed header itself is never framed.
\<close>

theorem unterminated_line_joins_next_header:
  "parse_same_message ''ZCZC-BAD-'' = Inl (TooFewParts 1 [''BAD'']) \<and>
   parse_same_message ''ZCZC-WXR-TOR-012103+0045-2780420-KTBW/NWS-''
   = Inr \<lparr>originator = ''WXR'', event_code = ''TOR'', fips_codes = [''012103''],
          duration = ''0045'', timestamp = ''2780420'', station_id = ''KTBW/NWS''\<rparr> \<and>
   stream_loop
     \<lparr>originators = Map.empty, events = Map.empty, counties = Map.empty\<rparr>
     ([], \<lparr>alerts_table = [], last_message = None\<rparr>)
     [(\<lparr>clock_year = 2025, clock_text = ''2025-10-05 04:20:00'',
        insert_fails = False, write_fails = False\<rparr>,
       ''ZCZC-BAD-''),
      (\<lparr>clock_year = 2025, clock_text = ''2025-10-05 04:21:00'',
        insert_fails = False, write_fails = False\<rparr>,
       ''ZCZC-EAS''),
      (\<lparr>clock_year = 2025, clock_text = ''2025-10-05 04:22:00'',
        insert_fails = False, write_fails = False\<rparr>,
       ''ZCZC-WXR-TOR-012103+0045-2780420-KTBW/NWS-'')]
   = Inr ([], \<lparr>alerts_table =
                 [\<lparr>row_timestamp_utc = Formatted 1064920580,
                   row_originator = ''EASZCZC'', row_event = ''WXR'',
                   row_event_code = ''WXR'', row_fips_codes = ''TOR,012103'',
                   row_regions = ''Unknown Region (TOR), Unknown Region (012103)'',
                   row_duration_minutes = 45, row_issued_code = ''2780420'',
                   row_source = ''KTBW/NWS'',
                   row_raw_message =
                     ''ZCZC-EASZCZC-WXR-TOR-012103+0045-2780420-KTBW/NWS-''\<rparr>],
               last_message =
                 Some \<lparr>md_event = ''WXR'', md_event_code = ''WXR'',
                       md_originator = ''EASZCZC'', md_source = ''KTBW/NWS'',
                       md_issued_local = Formatted 1064920580,
                       md_duration_minutes = 45,
                       md_regions = [''Unknown Region (TOR)'', ''Unknown Region (012103)''],
                       md_updated = ''2025-10-05 04:22:00''\<rparr>\<rparr>)"
  by code_simp

text \<open>
  C9, amended: let a line complete a header (it starts with the marker and ends with the
  terminator) whose decoding fails, at any stage, leaving the world \<open>w1\<close>. Then the
  iteration ends without an exception and with an empty buffer; the loop goes on over the
  remaining lines exactly as a framer started afresh on \<open>w1\<close>; it ends without an
  exception; and, provided every later line that starts with the marker also ends with the
  terminator, each later header is decoded as it stands, in order, whatever happened to
  the ones before it.
\<close>

theorem failure_isolated:
  assumes "startswith (strip l) ''ZCZC-''" and "endswith (strip l) ''-''"
    and "decode_same_message cat io w (buf @ strip l) = Inl (e, w1)"
  shows "process_line cat (buf, w) (io, l) = Inr ([], w1) \<and>
         stream_loop cat (buf, w) ((io, l) # inps) = stream_decode_from_stdin cat w1 inps \<and>
         (\<exists>st'. stream_loop cat (buf, w) ((io, l) # inps) = Inr st') \<and>
         ((\<forall>(io', n)\<in>set inps. startswith (strip n) ''ZCZC-'' \<longrightarrow> endswith (strip n) ''-'') \<longrightarrow>
            stream_loop cat (buf, w) ((io, l) # inps) =
              Inr ([], foldl (\<lambda>w' (io', n).
                         if startswith (strip n) ''ZCZC-''
                         then outcome_world (decode_same_message cat io' w' (strip n)) else w')
                       w1 inps))"
proof -
  have 1: "process_line cat (buf, w) (io, l) = Inr ([], w1)"
    by (rule process_line_failed [OF assms])
  then have 2: "stream_loop cat (buf, w) ((io, l) # inps) = stream_decode_from_stdin cat w1 inps"
    by (simp add: stream_decode_from_stdin_def)
  have 3: "\<exists>st'. stream_loop cat (buf, w) ((io, l) # inps) = Inr st'"
    by (rule stream_loop_total)
  have 4: "(\<forall>(io', n)\<in>set inps. startswith (strip n) ''ZCZC-'' \<longrightarrow> endswith (strip n) ''-'') \<longrightarrow>
            stream_loop cat (buf, w) ((io, l) # inps) =
              Inr ([], foldl (\<lambda>w' (io', n).
                         if startswith (strip n) ''ZCZC-''
                         then outcome_world (decode_same_message cat io' w' (strip n)) else w')
                       w1 inps)"
    using 2 stream_loop_whole_lines [of inps cat w1]
    by (simp add: stream_decode_from_stdin_def)
  from 1 2 3 4 show ?thesis by blast
qed

theorem failure_isolated_witness:
  "stream_loop
     \<lparr>originators = Map.empty, events = Map.empty, counties = Map.empty\<rparr>
     ([], \<lparr>alerts_table = [], last_message = None\<rparr>)
     [(\<lparr>clock_year = 2025, clock_text = ''2025-10-05 04:20:00'',
        insert_fails = True, write_fails = False\<rparr>,
       ''ZCZC-EAS-RWT-012057+0030-2780415-WTSP/TV-''),
      (\<lparr>clock_year = 2025, clock_text = ''2025-10-05 04:21:00'',
        insert_fails = False, write_fails = False\<rparr>,
       ''warning: squelch open''),
      (\<lparr>clock_year = 2025, clock_text = ''2025-10-05 04:22:00'',
        insert_fails = False, write_fails = False\<rparr>,
       ''ZCZC-WXR-TOR-012103+0045-2780420-KTBW/NWS-'')]
   = Inr ([], \<lparr>alerts_table =
                 [\<lparr>row_timestamp_utc = Formatted 1064920580,
                   row_originator = ''WXR'', row_event = ''TOR'', row_event_code = ''TOR'',
                   row_fips_codes = ''012103'', row_regions = ''Unknown Region (012103)'',
                   row_duration_minutes = 45, row_issued_code = ''2780420'',
                   row_source = ''KTBW/NWS'',
                   row_raw_message = ''ZCZC-WXR-TOR-012103+0045-2780420-KTBW/NWS-''\<rparr>],
               last_message =
                 Some \<lparr>md_event = ''TOR'', md_event_code = ''TOR'', md_originator = ''WXR'',
                       md_source = ''KTBW/NWS'', md_issued_local = Formatted 1064920580,
                       md_duration_minutes = 45,
                       md_regions = [''Unknown Region (012103)''],
                       md_updated = ''2025-10-05 04:22:00''\<rparr>\<rparr>)"
proof -
  let ?cat = "\<lparr>originators = Map.empty, events = Map.empty, counties = Map.empty\<rparr>"
  let ?w0 = "\<lparr>alerts_table = [], last_message = None\<rparr>"
  let ?io = "\<lparr>clock_year = 2025, clock_text = ''2025-10-05 04:20:00'',
              insert_fails = True, write_fails = False\<rparr>"
  let ?l = "''ZCZC-EAS-RWT-012057+0030-2780415-WTSP/TV-''"
  let ?inps = "[(\<lparr>clock_year = 2025, clock_text = ''2025-10-05 04:21:00'',
                  insert_fails = False, write_fails = False\<rparr>,
                 ''warning: squelch open''),
                (\<lparr>clock_year = 2025, clock_text = ''2025-10-05 04:22:00'',
                  insert_fails = False, write_fails = False\<rparr>,
                 ''ZCZC-WXR-TOR-012103+0045-2780420-KTBW/NWS-'')]"
  have a: "startswith (strip ?l) ''ZCZC-''" by code_simp
  have b: "endswith (strip ?l) ''-''" by code_simp
  have c: "decode_same_message ?cat ?io ?w0 ([] @ strip ?l) = Inl (DatabaseError, ?w0)"
    by code_simp
  have d: "\<forall>(io', n)\<in>set ?inps. startswith (strip n) ''ZCZC-'' \<longrightarrow> endswith (strip n) ''-''"
    by code_simp
  have f: "foldl (\<lambda>w' (io', n).
                         if startswith (strip n) ''ZCZC-''
                         then outcome_world (decode_same_message ?cat io' w' (strip n)) else w')
                       ?w0 ?inps =
      \<lparr>alerts_table =
                 [\<lparr>row_timestamp_utc = Formatted 1064920580,
                   row_originator = ''WXR'', row_event = ''TOR'', row_event_code = ''TOR'',
                   row_fips_codes = ''012103'', row_regions = ''Unknown Region (012103)'',
                   row_duration_minutes = 45, row_issued_code = ''2780420'',
                   row_source = ''KTBW/NWS'',
                   row_raw_message = ''ZCZC-WXR-TOR-012103+0045-2780420-KTBW/NWS-''\<rparr>],
               last_message =
                 Some \<lparr>md_event = ''TOR'', md_event_code = ''TOR'', md_originator = ''WXR'',
                       md_source = ''KTBW/NWS'', md_issued_local = Formatted 1064920580,
                       md_duration_minutes = 45,
                       md_regions = [''Unknown Region (012103)''],
                       md_updated = ''2025-10-05 04:22:00''\<rparr>\<rparr>"
    by code_simp
  from failure_isolated [OF a b c, of ?inps] d
  have "stream_loop ?cat ([], ?w0) ((?io, ?l) # ?inps) =
          Inr ([], foldl (\<lambda>w' (io', n).
                         if startswith (strip n) ''ZCZC-''
                         then outcome_world (decode_same_message ?cat io' w' (strip n)) else w')
                       ?w0 ?inps)"
    by blast
  then show ?thesis unfolding f .
qed

section \<open>Forward-only schema versions\<close>

text \<open>
  C7: when the stored version exceeds the supported version 2, \<^verbatim>\<open>run_migrations\<close>
  reports failure and changes nothing but the log: no backup, no migration step, no version
  record. For every store, whether the run returns or raises, the version records it
  leaves are the old ones followed by the ones it wrote, and the version found at the start
  followed by the written ones is strictly increasing, so each written record exceeds the
  version current when its step ran; the stored version never decreases.
\<close>

theorem schema_version_forward_only:
  "(get_schema_version (db s) > CURRENT_SCHEMA_VERSION \<longrightarrow>
      run_migrations s =
        (Inr False,
         s\<lparr>log := log s @ [LogCurrentVersion (get_schema_version (db s)),
                            LogTargetVersion CURRENT_SCHEMA_VERSION,
                            LogNewerThanExpected (get_schema_version (db s))
                              CURRENT_SCHEMA_VERSION]\<rparr>)) \<and>
   (\<exists>new. version_rows (db (snd (run_migrations s))) = version_rows (db s) @ new \<and>
          sorted_wrt (<) (get_schema_version (db s) # new)) \<and>
   get_schema_version (db s) \<le> get_schema_version (db (snd (run_migrations s)))"
proof -
  have 1: "get_schema_version (db s) > CURRENT_SCHEMA_VERSION \<longrightarrow>
      run_migrations s =
        (Inr False,
         s\<lparr>log := log s @ [LogCurrentVersion (get_schema_version (db s)),
                            LogTargetVersion CURRENT_SCHEMA_VERSION,
                            LogNewerThanExpected (get_schema_version (db s))
                              CURRENT_SCHEMA_VERSION]\<rparr>)"
    by (simp add: run_migrations_def Let_def logger_def)
  obtain new where
    rows: "version_rows (db (snd (run_migrations s))) = version_rows (db s) @ new"
    and srt: "sorted_wrt (<) (get_schema_version (db s) # new)"
    using run_migrations_rows by blast
  have 3: "get_schema_version (db s) \<le> get_schema_version (db (snd (run_migrations s)))"
  proof (cases "new = []")
    case True
    with rows show ?thesis by (simp add: get_schema_version_rows)
  next
    case False
    then have "last new \<in> set new" by simp
    with srt have "get_schema_version (db s) < last new" by auto
    with rows False show ?thesis by (simp add: get_schema_version_rows [of "db (snd (run_migrations s))"])
  qed
  from 1 rows srt 3 show ?thesis by blast
qed

theorem schema_version_forward_only_witness:
  "get_schema_version \<lparr>alerts = None, indexes = [], schema_version = Some [1, 2, 3]\<rparr>
     > CURRENT_SCHEMA_VERSION \<and>
   run_migrations
     \<lparr>db = \<lparr>alerts = None, indexes = [], schema_version = Some [1, 2, 3]\<rparr>,
      backup = None, log = []\<rparr>
   = (Inr False,
      \<lparr>db = \<lparr>alerts = None, indexes = [], schema_version = Some [1, 2, 3]\<rparr>,
       backup = None,
       log = [LogCurrentVersion 3, LogTargetVersion 2, LogNewerThanExpected 3 2]\<rparr>)"
proof -
  let ?s = "\<lparr>db = \<lparr>alerts = None, indexes = [], schema_version = Some [1, 2, 3]\<rparr>,
             backup = None, log = []\<rparr>"
  have v: "get_schema_version (db ?s) = 3" by (simp add: get_schema_version_def)
  have c: "CURRENT_SCHEMA_VERSION = 2" by (simp add: CURRENT_SCHEMA_VERSION_def)
  from schema_version_forward_only [of ?s] show ?thesis
    unfolding v c by (simp add: get_schema_version_def)
qed

section \<open>Migration from version 0\<close>

text \<open>
  A store whose stored version is already 2 is left as it is: no backup, no migration step,
  the report that the schema is up to date, and the result \<^verbatim>\<open>True\<close>.
\<close>

lemma up_to_date_noop:
  assumes "get_schema_version (db s) = CURRENT_SCHEMA_VERSION"
  shows "run_migrations s =
           (Inr True,
            s\<lparr>log := log s @ [LogCurrentVersion CURRENT_SCHEMA_VERSION,
                               LogTargetVersion CURRENT_SCHEMA_VERSION, LogUpToDate]\<rparr>)"
  using assms by (simp add: run_migrations_def Let_def logger_def)

text \<open>
  An empty database (no table at all) reaches version 2 through the records 1 and 2, with
  the columns \<^verbatim>\<open>event_code\<close> and \<^verbatim>\<open>created_at\<close> and the four indexes.
\<close>

lemma fresh_store_migrates:
  "run_migrations
     \<lparr>db = \<lparr>alerts = None, indexes = [], schema_version = None\<rparr>,
      backup = None, log = []\<rparr>
   = (Inr True,
      \<lparr>db = \<lparr>alerts =
                Some \<lparr>tbl_columns =
                        [''id'', ''timestamp_utc'', ''originator'', ''event'',
                         ''fips_codes'', ''regions'', ''duration_minutes'',
                         ''issued_code'', ''source'', ''raw_message'',
                         ''event_code'', ''created_at''],
                      tbl_rows = 0\<rparr>,
              indexes =
                [(''idx_alerts_timestamp'', ''timestamp_utc''),
                 (''idx_alerts_event_code'', ''event_code''),
                 (''idx_alerts_originator'', ''originator''),
                 (''idx_alerts_created_at'', ''created_at'')],
              schema_version = Some [1, 2]\<rparr>,
       backup = Some \<lparr>alerts = None, indexes = [], schema_version = None\<rparr>,
       log = [LogCurrentVersion 0, LogTargetVersion 2, LogBackedUp, LogCreatedBackup,
              LogRunningV0V1, LogMigratedTo 1, LogRunningV1V2, LogAddedEventCode,
              LogAddedCreatedAt, LogAddedIndexes, LogMigratedTo 2, LogValidationPassed,
              LogAllCompleted]\<rparr>)"
  by code_simp

text \<open>
  C6 on the code: a store at version 0 need not be empty. Take the database the legacy
  \<^verbatim>\<open>init_db.py\<close> and decoder leave behind: the \<^verbatim>\<open>alerts\<close> table with its ten base
  columns and one alert in it, and no \<^verbatim>\<open>schema_version\<close> table. The step to version 1
  is recorded, \<^verbatim>\<open>event_code\<close> is added, and then
  \<^verbatim>\<open>ALTER TABLE alerts ADD COLUMN created_at DATETIME DEFAULT CURRENT_TIMESTAMP\<close> is
  refused by SQLite because the table has rows. \<^verbatim>\<open>run_migrations\<close> raises; the store
  stays at version 1 without \<^verbatim>\<open>created_at\<close> and without any index.
\<close>

theorem legacy_store_stuck_at_version_1:
  "get_schema_version
     \<lparr>alerts = Some \<lparr>tbl_columns =
                       [''id'', ''timestamp_utc'', ''originator'', ''event'',
                        ''fips_codes'', ''regions'', ''duration_minutes'',
                        ''issued_code'', ''source'', ''raw_message''],
                     tbl_rows = 1\<rparr>,
      indexes = [], schema_version = None\<rparr> = 0 \<and>
   run_migrations
     \<lparr>db = \<lparr>alerts = Some \<lparr>tbl_columns =
                              [''id'', ''timestamp_utc'', ''originator'', ''event'',
                               ''fips_codes'', ''regions'', ''duration_minutes'',
                               ''issued_code'', ''source'', ''raw_message''],
                            tbl_rows = 1\<rparr>,
             indexes = [], schema_version = None\<rparr>,
      backup = None, log = []\<rparr>
   = (Inl NonConstantDefault,
      \<lparr>db = \<lparr>alerts = Some \<lparr>tbl_columns =
                               [''id'', ''timestamp_utc'', ''originator'', ''event'',
                                ''fips_codes'', ''regions'', ''duration_minutes'',
                                ''issued_code'', ''source'', ''raw_message'',
                                ''event_code''],
                             tbl_rows = 1\<rparr>,
              indexes = [], schema_version = Some [1]\<rparr>,
       backup =
         Some \<lparr>alerts = Some \<lparr>tbl_columns =
                                [''id'', ''timestamp_utc'', ''originator'', ''event'',
                                 ''fips_codes'', ''regions'', ''duration_minutes'',
                                 ''issued_code'', ''source'', ''raw_message''],
                              tbl_rows = 1\<rparr>,
               indexes = [], schema_version = None\<rparr>,
       log = [LogCurrentVersion 0, LogTargetVersion 2, LogBackedUp, LogCreatedBackup,
              LogRunningV0V1, LogMigratedTo 1, LogRunningV1V2, LogAddedEventCode,
              LogDatabaseError NonConstantDefault, LogMigrationFailed NonConstantDefault,
              LogConsiderRestoring]\<rparr>)"
  by code_simp

end
